theory Spec2Isabelle
  imports Main "HOL-Library.Multiset"
begin

section \<open>The cube model (cube_model.py)\<close>

text \<open>
  A facelet colour is a Python string, a face is a list of rows, each row a list of
  colours, read \<open>face[row][col]\<close>. The dictionary \<open>self.faces\<close> has the six fixed keys
  \<open>up, down, front, back, right, left\<close> (in this insertion order) and is never given
  another key, so it is a record with one field per key (\<open>back_face\<close> for the key
  \<open>back\<close>, which is a command of the proof language).

  The methods mutate the cube in place; the model passes the cube through and returns
  the cube after the call. Every row that the class stores is a fresh list (built by a
  comprehension, a list display or \<open>.copy()\<close>), so no two rows are ever the same
  object and value semantics is what the Python does.
\<close>

type_synonym color = string
type_synonym face = "color list list"

record cube =
  up :: face
  down :: face
  front :: face
  back_face :: face
  right :: face
  left :: face

datatype error = ValueError string | KeyError string | OtherException string

text \<open>\<open>range(3)\<close>.\<close>

definition range3 :: "nat list" where
  "range3 = [0, 1, 2]"

text \<open>\<open>[['W'] * 3 for _ in range(3)]\<close>.\<close>

definition uniform_face :: "color \<Rightarrow> face" where
  "uniform_face col = map (\<lambda>_. replicate 3 col) range3"

text \<open>\<open>RubiksCube.__init__\<close>: the solved cube.\<close>

definition new_cube :: cube where
  "new_cube =
     \<lparr> up = uniform_face ''W'', down = uniform_face ''Y'', front = uniform_face ''R'',
       back_face = uniform_face ''O'', right = uniform_face ''B'', left = uniform_face ''G'' \<rparr>"

text \<open>
  The class invariant: every face is a 3 by 3 grid. \<open>__init__\<close> and \<open>set_face\<close>
  store only such grids, and every move keeps them (\<open>wf_cube_set_face\<close> and
  \<open>apply_move_props\<close> below).
  Outside it the Python raises IndexError from an index expression; the
  model reads with \<open>!\<close> and is meant on well-formed cubes only, so the theorems about
  reads carry \<open>wf_cube\<close>.
\<close>

definition wf_face :: "face \<Rightarrow> bool" where
  "wf_face f = (length f = 3 \<and> list_all (\<lambda>row. length row = 3) f)"

definition wf_cube :: "cube \<Rightarrow> bool" where
  "wf_cube c = (wf_face (up c) \<and> wf_face (down c) \<and> wf_face (front c) \<and>
                wf_face (back_face c) \<and> wf_face (right c) \<and> wf_face (left c))"

text \<open>\<open>self.faces.values()\<close> and \<open>self.faces.items()\<close>, in the dictionary's order.\<close>

definition faces_values :: "cube \<Rightarrow> face list" where
  "faces_values c = [up c, down c, front c, back_face c, right c, left c]"

text \<open>\<open>set_face\<close>: the face name selects the field; a name that is no key and a
  colour list whose length is not 9 raise ValueError before anything is stored.\<close>

definition set_face :: "string \<Rightarrow> color list \<Rightarrow> cube \<Rightarrow> cube \<times> error option" where
  "set_face face_name colors c =
     (if face_name \<notin> set [''up'', ''down'', ''front'', ''back'', ''right'', ''left'']
      then (c, Some (ValueError (''Invalid face name: '' @ face_name)))
      else if length colors = 9 then
        (let g = [[colors ! 0, colors ! 1, colors ! 2],
                  [colors ! 3, colors ! 4, colors ! 5],
                  [colors ! 6, colors ! 7, colors ! 8]]
         in ((if face_name = ''up'' then c\<lparr>up := g\<rparr>
              else if face_name = ''down'' then c\<lparr>down := g\<rparr>
              else if face_name = ''front'' then c\<lparr>front := g\<rparr>
              else if face_name = ''back'' then c\<lparr>back_face := g\<rparr>
              else if face_name = ''right'' then c\<lparr>right := g\<rparr>
              else c\<lparr>left := g\<rparr>), None))
      else (c, Some (ValueError ''Face must have exactly 9 colors'')))"

text \<open>\<open>is_solved\<close>: the first facelet that differs from its face's centre returns
  False.\<close>

definition face_solved :: "face \<Rightarrow> bool" where
  "face_solved f =
     (let center_color = f ! 1 ! 1
      in list_all (\<lambda>row. list_all (\<lambda>color. \<not> color \<noteq> center_color) row) f)"

definition is_solved :: "cube \<Rightarrow> bool" where
  "is_solved c = list_all face_solved (faces_values c)"

text \<open>\<open>is_valid\<close>. \<open>color_count\<close> is the dictionary built by the three nested loops;
  \<open>dict_get\<close> is \<open>dict.get(key, default)\<close>. On a well-formed cube of strings no
  statement of the \<open>try\<close> block raises, so the \<open>except\<close> branch is not taken.\<close>

definition dict_get :: "('k \<rightharpoonup> 'v) \<Rightarrow> 'k \<Rightarrow> 'v \<Rightarrow> 'v" where
  "dict_get m k d = (case m k of None \<Rightarrow> d | Some v \<Rightarrow> v)"

definition count_color :: "color \<Rightarrow> (color \<rightharpoonup> nat) \<Rightarrow> (color \<rightharpoonup> nat)" where
  "count_color color color_count = color_count(color \<mapsto> dict_get color_count color 0 + 1)"

definition color_count_of :: "cube \<Rightarrow> (color \<rightharpoonup> nat)" where
  "color_count_of c =
     fold (\<lambda>face m. fold (\<lambda>row m. fold count_color row m) face m) (faces_values c) Map.empty"

definition centers :: "cube \<Rightarrow> color list" where
  "centers c = map (\<lambda>face. face ! 1 ! 1) (faces_values c)"

definition validate_pieces :: "cube \<Rightarrow> bool" where
  "validate_pieces c = True"

definition is_valid :: "cube \<Rightarrow> bool" where
  "is_valid c =
     (let color_count = color_count_of c
      in if list_ex (\<lambda>color. dict_get color_count color 0 \<noteq> 9)
              [''W'', ''Y'', ''R'', ''O'', ''B'', ''G'']
         then False
         else if card (set (centers c)) \<noteq> 6 then False
         else validate_pieces c)"

subsection \<open>Face turns\<close>

text \<open>\<open>face[i][j] = v\<close>.\<close>

definition put :: "face \<Rightarrow> nat \<Rightarrow> nat \<Rightarrow> color \<Rightarrow> face" where
  "put f i j v = f[i := (f ! i)[j := v]]"

text \<open>\<open>_rotate_face\<close>, on the face it is called for.\<close>

definition rotate_face :: "face \<Rightarrow> bool \<Rightarrow> face" where
  "rotate_face f clockwise =
     (if clockwise then map (\<lambda>i. map (\<lambda>j. f ! (2 - j) ! i) range3) range3
      else map (\<lambda>i. map (\<lambda>j. f ! j ! (2 - i)) range3) range3)"

definition rotate_up :: "bool \<Rightarrow> cube \<Rightarrow> cube" where
  "rotate_up clockwise c0 =
     (let c = c0\<lparr>up := rotate_face (up c0) clockwise\<rparr>;
          temp = front c ! 0
      in if clockwise then
           (let c = c\<lparr>front := (front c)[0 := right c ! 0]\<rparr>;
                c = c\<lparr>right := (right c)[0 := back_face c ! 0]\<rparr>;
                c = c\<lparr>back_face := (back_face c)[0 := left c ! 0]\<rparr>;
                c = c\<lparr>left := (left c)[0 := temp]\<rparr>
            in c)
         else
           (let c = c\<lparr>front := (front c)[0 := left c ! 0]\<rparr>;
                c = c\<lparr>left := (left c)[0 := back_face c ! 0]\<rparr>;
                c = c\<lparr>back_face := (back_face c)[0 := right c ! 0]\<rparr>;
                c = c\<lparr>right := (right c)[0 := temp]\<rparr>
            in c))"

definition rotate_down :: "bool \<Rightarrow> cube \<Rightarrow> cube" where
  "rotate_down clockwise c0 =
     (let c = c0\<lparr>down := rotate_face (down c0) clockwise\<rparr>;
          temp = front c ! 2
      in if clockwise then
           (let c = c\<lparr>front := (front c)[2 := left c ! 2]\<rparr>;
                c = c\<lparr>left := (left c)[2 := back_face c ! 2]\<rparr>;
                c = c\<lparr>back_face := (back_face c)[2 := right c ! 2]\<rparr>;
                c = c\<lparr>right := (right c)[2 := temp]\<rparr>
            in c)
         else
           (let c = c\<lparr>front := (front c)[2 := right c ! 2]\<rparr>;
                c = c\<lparr>right := (right c)[2 := back_face c ! 2]\<rparr>;
                c = c\<lparr>back_face := (back_face c)[2 := left c ! 2]\<rparr>;
                c = c\<lparr>left := (left c)[2 := temp]\<rparr>
            in c))"

definition rotate_right :: "bool \<Rightarrow> cube \<Rightarrow> cube" where
  "rotate_right clockwise c0 =
     (let c = c0\<lparr>right := rotate_face (right c0) clockwise\<rparr>;
          temp = map (\<lambda>i. front c ! i ! 2) range3
      in if clockwise then
           fold (\<lambda>i c.
             let c = c\<lparr>front := put (front c) i 2 (down c ! i ! 2)\<rparr>;
                 c = c\<lparr>down := put (down c) i 2 (back_face c ! (2 - i) ! 0)\<rparr>;
                 c = c\<lparr>back_face := put (back_face c) (2 - i) 0 (up c ! i ! 2)\<rparr>;
                 c = c\<lparr>up := put (up c) i 2 (temp ! i)\<rparr>
             in c) range3 c
         else
           fold (\<lambda>i c.
             let c = c\<lparr>front := put (front c) i 2 (up c ! i ! 2)\<rparr>;
                 c = c\<lparr>up := put (up c) i 2 (back_face c ! (2 - i) ! 0)\<rparr>;
                 c = c\<lparr>back_face := put (back_face c) (2 - i) 0 (down c ! i ! 2)\<rparr>;
                 c = c\<lparr>down := put (down c) i 2 (temp ! i)\<rparr>
             in c) range3 c)"

definition rotate_left :: "bool \<Rightarrow> cube \<Rightarrow> cube" where
  "rotate_left clockwise c0 =
     (let c = c0\<lparr>left := rotate_face (left c0) clockwise\<rparr>;
          temp = map (\<lambda>i. front c ! i ! 0) range3
      in if clockwise then
           fold (\<lambda>i c.
             let c = c\<lparr>front := put (front c) i 0 (up c ! i ! 0)\<rparr>;
                 c = c\<lparr>up := put (up c) i 0 (back_face c ! (2 - i) ! 2)\<rparr>;
                 c = c\<lparr>back_face := put (back_face c) (2 - i) 2 (down c ! i ! 0)\<rparr>;
                 c = c\<lparr>down := put (down c) i 0 (temp ! i)\<rparr>
             in c) range3 c
         else
           fold (\<lambda>i c.
             let c = c\<lparr>front := put (front c) i 0 (down c ! i ! 0)\<rparr>;
                 c = c\<lparr>down := put (down c) i 0 (back_face c ! (2 - i) ! 2)\<rparr>;
                 c = c\<lparr>back_face := put (back_face c) (2 - i) 2 (up c ! i ! 0)\<rparr>;
                 c = c\<lparr>up := put (up c) i 0 (temp ! i)\<rparr>
             in c) range3 c)"

definition rotate_front :: "bool \<Rightarrow> cube \<Rightarrow> cube" where
  "rotate_front clockwise c0 =
     (let c = c0\<lparr>front := rotate_face (front c0) clockwise\<rparr>
      in if clockwise then
           (let temp = up c ! 2;
                c = c\<lparr>up := (up c)[2 := map (\<lambda>i. left c ! (2 - i) ! 2) range3]\<rparr>;
                c = fold (\<lambda>i c. c\<lparr>left := put (left c) i 2 (down c ! 0 ! i)\<rparr>) range3 c;
                c = c\<lparr>down := (down c)[0 := map (\<lambda>i. right c ! (2 - i) ! 0) range3]\<rparr>;
                c = fold (\<lambda>i c. c\<lparr>right := put (right c) i 0 (temp ! i)\<rparr>) range3 c
            in c)
         else
           (let temp = up c ! 2;
                c = fold (\<lambda>i c. c\<lparr>up := put (up c) 2 i (right c ! i ! 0)\<rparr>) range3 c;
                c = c\<lparr>right := map (\<lambda>i. map (\<lambda>j. if j = 0 then down c ! 0 ! (2 - i)
                                                     else right c ! i ! j) range3) range3\<rparr>;
                c = fold (\<lambda>i c. c\<lparr>down := put (down c) 0 i (left c ! i ! 2)\<rparr>) range3 c;
                c = fold (\<lambda>i c. c\<lparr>left := put (left c) i 2 (temp ! (2 - i))\<rparr>) range3 c
            in c))"

definition rotate_back :: "bool \<Rightarrow> cube \<Rightarrow> cube" where
  "rotate_back clockwise c0 =
     (let c = c0\<lparr>back_face := rotate_face (back_face c0) clockwise\<rparr>
      in if clockwise then
           (let temp = up c ! 0;
                c = fold (\<lambda>i c. c\<lparr>up := put (up c) 0 i (right c ! i ! 2)\<rparr>) range3 c;
                c = fold (\<lambda>i c. c\<lparr>right := put (right c) i 2 (down c ! 2 ! (2 - i))\<rparr>) range3 c;
                c = c\<lparr>down := (down c)[2 := map (\<lambda>i. left c ! (2 - i) ! 0) range3]\<rparr>;
                c = fold (\<lambda>i c. c\<lparr>left := put (left c) i 0 (temp ! (2 - i))\<rparr>) range3 c
            in c)
         else
           (let temp = up c ! 0;
                c = c\<lparr>up := (up c)[0 := map (\<lambda>i. left c ! (2 - i) ! 0) range3]\<rparr>;
                c = fold (\<lambda>i c. c\<lparr>left := put (left c) i 0 (down c ! 2 ! i)\<rparr>) range3 c;
                c = fold (\<lambda>i c. c\<lparr>down := put (down c) 2 i (right c ! (2 - i) ! 2)\<rparr>) range3 c;
                c = fold (\<lambda>i c. c\<lparr>right := put (right c) i 2 (temp ! i)\<rparr>) range3 c
            in c))"

text \<open>\<open>_apply_base_move\<close>: the state after the call and the exception it raised, if
  any. The \<open>raise\<close> is the whole \<open>else\<close> branch, so the cube is the one passed in.\<close>

definition apply_base_move :: "string \<Rightarrow> bool \<Rightarrow> cube \<Rightarrow> cube \<times> error option" where
  "apply_base_move move clockwise c =
     (if move = ''U'' then (rotate_up clockwise c, None)
      else if move = ''D'' then (rotate_down clockwise c, None)
      else if move = ''L'' then (rotate_left clockwise c, None)
      else if move = ''R'' then (rotate_right clockwise c, None)
      else if move = ''F'' then (rotate_front clockwise c, None)
      else if move = ''B'' then (rotate_back clockwise c, None)
      else (c, Some (ValueError (''Invalid move: '' @ move))))"

text \<open>\<open>str.endswith\<close> for a one-character suffix, and the apostrophe.\<close>

definition apostrophe :: char where
  "apostrophe = CHR 0x27"

definition endswith :: "string \<Rightarrow> char \<Rightarrow> bool" where
  "endswith s ch = (s \<noteq> [] \<and> last s = ch)"

text \<open>\<open>apply_move\<close>; \<open>move[:-1]\<close> is \<open>butlast move\<close>. In the double move the second
  call runs only when the first did not raise.\<close>

definition apply_move :: "string \<Rightarrow> cube \<Rightarrow> cube \<times> error option" where
  "apply_move move c =
     (if endswith move apostrophe then
        (let base_move = butlast move in apply_base_move base_move False c)
      else if endswith move CHR ''2'' then
        (let base_move = butlast move
         in case apply_base_move base_move True c of
              (c1, Some e) \<Rightarrow> (c1, Some e)
            | (c1, None) \<Rightarrow> apply_base_move base_move True c1)
      else apply_base_move move True c)"

text \<open>A caller's sequence of calls \<open>apply_move(m1); apply_move(m2); ...\<close>: the first
  exception ends it.\<close>

fun apply_moves :: "string list \<Rightarrow> cube \<Rightarrow> cube \<times> error option" where
  "apply_moves [] c = (c, None)"
| "apply_moves (m # ms) c =
     (case apply_move m c of
        (c1, Some e) \<Rightarrow> (c1, Some e)
      | (c1, None) \<Rightarrow> apply_moves ms c1)"

section \<open>The solver adapter (cube_solver.py)\<close>

text \<open>
  \<open>kociemba.solve\<close> is the external collaborator: given the facelet string it returns
  a string of moves or raises an exception (one that \<open>except Exception\<close> catches). It is a
  parameter of the model.
\<close>

type_synonym collaborator = "string \<Rightarrow> error + string"

text \<open>\<open>str.split()\<close> with no argument: the maximal runs of characters that are not
  whitespace. A \<open>char\<close> is a byte, and these are the whitespace bytes of ASCII.\<close>

definition is_space :: "char \<Rightarrow> bool" where
  "is_space ch =
     (ch \<in> set [CHR 0x09, CHR 0x0A, CHR 0x0B, CHR 0x0C, CHR 0x0D,
                CHR 0x1C, CHR 0x1D, CHR 0x1E, CHR 0x1F, CHR 0x20])"

fun split_ws :: "string \<Rightarrow> string \<Rightarrow> string list" where
  "split_ws word [] = (if word = [] then [] else [word])"
| "split_ws word (ch # rest) =
     (if is_space ch then (if word = [] then split_ws [] rest else word # split_ws [] rest)
      else split_ws (word @ [ch]) rest)"

definition py_split :: "string \<Rightarrow> string list" where
  "py_split s = split_ws [] s"

text \<open>\<open>_to_kociemba_string\<close>. \<open>face_order\<close> lists the faces named by
  \<open>['up', 'right', 'front', 'down', 'left', 'back']\<close>; \<open>color_map_of\<close> is the dictionary
  filled by the loop over \<open>zip(face_order, ['U', 'R', 'F', 'D', 'L', 'B'])\<close>, a later
  face overwriting an earlier one with the same centre; \<open>color_map[cell]\<close> raises KeyError
  on a colour that is no key.\<close>

definition face_order :: "cube \<Rightarrow> face list" where
  "face_order c = [up c, right c, front c, down c, left c, back_face c]"

definition color_map_of :: "cube \<Rightarrow> (color \<rightharpoonup> string)" where
  "color_map_of c =
     fold (\<lambda>(face, letter) color_map. color_map(face ! 1 ! 1 \<mapsto> letter))
       (zip (face_order c) [''U'', ''R'', ''F'', ''D'', ''L'', ''B'']) Map.empty"

definition encode_cell :: "(color \<rightharpoonup> string) \<Rightarrow> color \<Rightarrow> error + string \<Rightarrow> error + string" where
  "encode_cell color_map cell acc =
     (case acc of
        Inl e \<Rightarrow> Inl e
      | Inr cube_str \<Rightarrow>
          (case color_map cell of
             None \<Rightarrow> Inl (KeyError cell)
           | Some letter \<Rightarrow> Inr (cube_str @ letter)))"

definition to_kociemba_string :: "cube \<Rightarrow> error + string" where
  "to_kociemba_string c =
     (let color_map = color_map_of c
      in fold (\<lambda>face acc. fold (\<lambda>row acc. fold (encode_cell color_map) row acc) face acc)
           (face_order c) (Inr []))"

text \<open>\<open>_generate_simple_solution\<close>.\<close>

definition generate_simple_solution :: "string list" where
  "generate_simple_solution =
     (let simple_moves =
        [''F2'', ''R2'', ''U2'', ''B2'', ''L2'', ''R'', ''U'', [CHR ''R'', CHR 0x27],
         [CHR ''U'', CHR 0x27], ''F'', ''R'', ''U'', [CHR ''R'', CHR 0x27],
         [CHR ''U'', CHR 0x27], [CHR ''F'', CHR 0x27]]
      in take 25 simple_moves)"

text \<open>\<open>RubiksCubeSolver(cube).solve()\<close>. The constructor stores a deep copy of the
  cube, which is the same value, and \<open>solve\<close> does not change it. The result is what
  \<open>solve\<close> returns (or the exception that leaves it) together with the arguments of
  the calls it made to the collaborator, in order.\<close>

record solve_result =
  returned :: "error + string list"
  calls :: "string list"

definition solve :: "collaborator \<Rightarrow> cube \<Rightarrow> solve_result" where
  "solve kociemba_solve c =
     (if is_solved c then \<lparr> returned = Inr [], calls = [] \<rparr>
      else if \<not> is_valid c then \<lparr> returned = Inr [], calls = [] \<rparr>
      else
        (case to_kociemba_string c of
           Inl e \<Rightarrow> \<lparr> returned = Inl e, calls = [] \<rparr>
         | Inr cube_str \<Rightarrow>
             (case kociemba_solve cube_str of
                Inr solution_str \<Rightarrow>
                  \<lparr> returned = Inr (py_split solution_str), calls = [cube_str] \<rparr>
              | Inl e \<Rightarrow>
                  \<lparr> returned = Inr generate_simple_solution, calls = [cube_str] \<rparr>)))"

section \<open>Vocabulary of the properties\<close>

text \<open>The facelets of a cube, face by face and row by row, as \<open>is_valid\<close> visits
  them.\<close>

definition facelets :: "cube \<Rightarrow> color list" where
  "facelets c = concat (concat (faces_values c))"

text \<open>The six base moves and the eighteen move symbols.\<close>

definition base_moves :: "string list" where
  "base_moves = [''U'', ''D'', ''L'', ''R'', ''F'', ''B'']"

definition move_alphabet :: "string list" where
  "move_alphabet =
     concat (map (\<lambda>x. [x, x @ [apostrophe], x @ ''2'']) [''U'', ''D'', ''L'', ''R'', ''F'', ''B''])"

text \<open>Two cubes to evaluate the operations on: the new cube after the move \<open>U\<close>, and
  the new cube whose upper face was set to eight white facelets and one of a colour
  \<open>X\<close> that no centre has.\<close>

definition cube_after_U :: cube where
  "cube_after_U = fst (apply_move ''U'' new_cube)"

definition cube_stray :: cube where
  "cube_stray =
     fst (set_face ''up'' [''X'', ''W'', ''W'', ''W'', ''W'', ''W'', ''W'', ''W'', ''W''] new_cube)"

section \<open>The shape of a well-formed cube and the twelve quarter turns\<close>

text \<open>A well-formed cube is six grids of nine colours each; on such a cube each of the
  twelve quarter turns is the permutation of facelets written out below, computed from
  the definitions above.\<close>

lemma wf_face_grid:
  assumes "wf_face f"
  shows "\<exists>a b c d e g h i j. f = [[a, b, c], [d, e, g], [h, i, j]]"
  using assms unfolding wf_face_def
  by (auto simp: length_Suc_conv eval_nat_numeral)

lemma wf_cube_cases:
  assumes "wf_cube c"
  obtains u0 u1 u2 u3 u4 u5 u6 u7 u8 d0 d1 d2 d3 d4 d5 d6 d7 d8 f0 f1 f2 f3 f4 f5 f6 f7 f8 b0 b1 b2 b3 b4 b5 b6 b7 b8 r0 r1 r2 r3 r4 r5 r6 r7 r8 l0 l1 l2 l3 l4 l5 l6 l7 l8
  where "c = \<lparr> up = [[u0, u1, u2], [u3, u4, u5], [u6, u7, u8]],
           down = [[d0, d1, d2], [d3, d4, d5], [d6, d7, d8]],
           front = [[f0, f1, f2], [f3, f4, f5], [f6, f7, f8]],
           back_face = [[b0, b1, b2], [b3, b4, b5], [b6, b7, b8]],
           right = [[r0, r1, r2], [r3, r4, r5], [r6, r7, r8]],
           left = [[l0, l1, l2], [l3, l4, l5], [l6, l7, l8]] \<rparr>"
proof -
  obtain u0 u1 u2 u3 u4 u5 u6 u7 u8 where u: "up c = [[u0, u1, u2], [u3, u4, u5], [u6, u7, u8]]"
    using assms wf_face_grid [of "up c"] unfolding wf_cube_def by blast
  obtain d0 d1 d2 d3 d4 d5 d6 d7 d8 where d: "down c = [[d0, d1, d2], [d3, d4, d5], [d6, d7, d8]]"
    using assms wf_face_grid [of "down c"] unfolding wf_cube_def by blast
  obtain f0 f1 f2 f3 f4 f5 f6 f7 f8 where f: "front c = [[f0, f1, f2], [f3, f4, f5], [f6, f7, f8]]"
    using assms wf_face_grid [of "front c"] unfolding wf_cube_def by blast
  obtain b0 b1 b2 b3 b4 b5 b6 b7 b8 where b: "back_face c = [[b0, b1, b2], [b3, b4, b5], [b6, b7, b8]]"
    using assms wf_face_grid [of "back_face c"] unfolding wf_cube_def by blast
  obtain r0 r1 r2 r3 r4 r5 r6 r7 r8 where r: "right c = [[r0, r1, r2], [r3, r4, r5], [r6, r7, r8]]"
    using assms wf_face_grid [of "right c"] unfolding wf_cube_def by blast
  obtain l0 l1 l2 l3 l4 l5 l6 l7 l8 where l: "left c = [[l0, l1, l2], [l3, l4, l5], [l6, l7, l8]]"
    using assms wf_face_grid [of "left c"] unfolding wf_cube_def by blast
  have "c = \<lparr> up = [[u0, u1, u2], [u3, u4, u5], [u6, u7, u8]],
           down = [[d0, d1, d2], [d3, d4, d5], [d6, d7, d8]],
           front = [[f0, f1, f2], [f3, f4, f5], [f6, f7, f8]],
           back_face = [[b0, b1, b2], [b3, b4, b5], [b6, b7, b8]],
           right = [[r0, r1, r2], [r3, r4, r5], [r6, r7, r8]],
           left = [[l0, l1, l2], [l3, l4, l5], [l6, l7, l8]] \<rparr>"
    using u d f b r l by (cases c) simp
  then show thesis by (rule that)
qed

lemma rotate_up_cw:
  "rotate_up True
     \<lparr> up = [[u0, u1, u2], [u3, u4, u5], [u6, u7, u8]],
       down = [[d0, d1, d2], [d3, d4, d5], [d6, d7, d8]],
       front = [[f0, f1, f2], [f3, f4, f5], [f6, f7, f8]],
       back_face = [[b0, b1, b2], [b3, b4, b5], [b6, b7, b8]],
       right = [[r0, r1, r2], [r3, r4, r5], [r6, r7, r8]],
       left = [[l0, l1, l2], [l3, l4, l5], [l6, l7, l8]] \<rparr> =
     \<lparr> up = [[u6, u3, u0], [u7, u4, u1], [u8, u5, u2]],
       down = [[d0, d1, d2], [d3, d4, d5], [d6, d7, d8]],
       front = [[r0, r1, r2], [f3, f4, f5], [f6, f7, f8]],
       back_face = [[l0, l1, l2], [b3, b4, b5], [b6, b7, b8]],
       right = [[b0, b1, b2], [r3, r4, r5], [r6, r7, r8]],
       left = [[f0, f1, f2], [l3, l4, l5], [l6, l7, l8]] \<rparr>"
  by (simp add: rotate_up_def rotate_face_def range3_def put_def Let_def)

lemma rotate_up_ccw:
  "rotate_up False
     \<lparr> up = [[u0, u1, u2], [u3, u4, u5], [u6, u7, u8]],
       down = [[d0, d1, d2], [d3, d4, d5], [d6, d7, d8]],
       front = [[f0, f1, f2], [f3, f4, f5], [f6, f7, f8]],
       back_face = [[b0, b1, b2], [b3, b4, b5], [b6, b7, b8]],
       right = [[r0, r1, r2], [r3, r4, r5], [r6, r7, r8]],
       left = [[l0, l1, l2], [l3, l4, l5], [l6, l7, l8]] \<rparr> =
     \<lparr> up = [[u2, u5, u8], [u1, u4, u7], [u0, u3, u6]],
       down = [[d0, d1, d2], [d3, d4, d5], [d6, d7, d8]],
       front = [[l0, l1, l2], [f3, f4, f5], [f6, f7, f8]],
       back_face = [[r0, r1, r2], [b3, b4, b5], [b6, b7, b8]],
       right = [[f0, f1, f2], [r3, r4, r5], [r6, r7, r8]],
       left = [[b0, b1, b2], [l3, l4, l5], [l6, l7, l8]] \<rparr>"
  by (simp add: rotate_up_def rotate_face_def range3_def put_def Let_def)

lemma rotate_down_cw:
  "rotate_down True
     \<lparr> up = [[u0, u1, u2], [u3, u4, u5], [u6, u7, u8]],
       down = [[d0, d1, d2], [d3, d4, d5], [d6, d7, d8]],
       front = [[f0, f1, f2], [f3, f4, f5], [f6, f7, f8]],
       back_face = [[b0, b1, b2], [b3, b4, b5], [b6, b7, b8]],
       right = [[r0, r1, r2], [r3, r4, r5], [r6, r7, r8]],
       left = [[l0, l1, l2], [l3, l4, l5], [l6, l7, l8]] \<rparr> =
     \<lparr> up = [[u0, u1, u2], [u3, u4, u5], [u6, u7, u8]],
       down = [[d6, d3, d0], [d7, d4, d1], [d8, d5, d2]],
       front = [[f0, f1, f2], [f3, f4, f5], [l6, l7, l8]],
       back_face = [[b0, b1, b2], [b3, b4, b5], [r6, r7, r8]],
       right = [[r0, r1, r2], [r3, r4, r5], [f6, f7, f8]],
       left = [[l0, l1, l2], [l3, l4, l5], [b6, b7, b8]] \<rparr>"
  by (simp add: rotate_down_def rotate_face_def range3_def put_def Let_def)

lemma rotate_down_ccw:
  "rotate_down False
     \<lparr> up = [[u0, u1, u2], [u3, u4, u5], [u6, u7, u8]],
       down = [[d0, d1, d2], [d3, d4, d5], [d6, d7, d8]],
       front = [[f0, f1, f2], [f3, f4, f5], [f6, f7, f8]],
       back_face = [[b0, b1, b2], [b3, b4, b5], [b6, b7, b8]],
       right = [[r0, r1, r2], [r3, r4, r5], [r6, r7, r8]],
       left = [[l0, l1, l2], [l3, l4, l5], [l6, l7, l8]] \<rparr> =
     \<lparr> up = [[u0, u1, u2], [u3, u4, u5], [u6, u7, u8]],
       down = [[d2, d5, d8], [d1, d4, d7], [d0, d3, d6]],
       front = [[f0, f1, f2], [f3, f4, f5], [r6, r7, r8]],
       back_face = [[b0, b1, b2], [b3, b4, b5], [l6, l7, l8]],
       right = [[r0, r1, r2], [r3, r4, r5], [b6, b7, b8]],
       left = [[l0, l1, l2], [l3, l4, l5], [f6, f7, f8]] \<rparr>"
  by (simp add: rotate_down_def rotate_face_def range3_def put_def Let_def)

lemma rotate_left_cw:
  "rotate_left True
     \<lparr> up = [[u0, u1, u2], [u3, u4, u5], [u6, u7, u8]],
       down = [[d0, d1, d2], [d3, d4, d5], [d6, d7, d8]],
       front = [[f0, f1, f2], [f3, f4, f5], [f6, f7, f8]],
       back_face = [[b0, b1, b2], [b3, b4, b5], [b6, b7, b8]],
       right = [[r0, r1, r2], [r3, r4, r5], [r6, r7, r8]],
       left = [[l0, l1, l2], [l3, l4, l5], [l6, l7, l8]] \<rparr> =
     \<lparr> up = [[b8, u1, u2], [b5, u4, u5], [b2, u7, u8]],
       down = [[f0, d1, d2], [f3, d4, d5], [f6, d7, d8]],
       front = [[u0, f1, f2], [u3, f4, f5], [u6, f7, f8]],
       back_face = [[b0, b1, d6], [b3, b4, d3], [b6, b7, d0]],
       right = [[r0, r1, r2], [r3, r4, r5], [r6, r7, r8]],
       left = [[l6, l3, l0], [l7, l4, l1], [l8, l5, l2]] \<rparr>"
  by (simp add: rotate_left_def rotate_face_def range3_def put_def Let_def)

lemma rotate_left_ccw:
  "rotate_left False
     \<lparr> up = [[u0, u1, u2], [u3, u4, u5], [u6, u7, u8]],
       down = [[d0, d1, d2], [d3, d4, d5], [d6, d7, d8]],
       front = [[f0, f1, f2], [f3, f4, f5], [f6, f7, f8]],
       back_face = [[b0, b1, b2], [b3, b4, b5], [b6, b7, b8]],
       right = [[r0, r1, r2], [r3, r4, r5], [r6, r7, r8]],
       left = [[l0, l1, l2], [l3, l4, l5], [l6, l7, l8]] \<rparr> =
     \<lparr> up = [[f0, u1, u2], [f3, u4, u5], [f6, u7, u8]],
       down = [[b8, d1, d2], [b5, d4, d5], [b2, d7, d8]],
       front = [[d0, f1, f2], [d3, f4, f5], [d6, f7, f8]],
       back_face = [[b0, b1, u6], [b3, b4, u3], [b6, b7, u0]],
       right = [[r0, r1, r2], [r3, r4, r5], [r6, r7, r8]],
       left = [[l2, l5, l8], [l1, l4, l7], [l0, l3, l6]] \<rparr>"
  by (simp add: rotate_left_def rotate_face_def range3_def put_def Let_def)

lemma rotate_right_cw:
  "rotate_right True
     \<lparr> up = [[u0, u1, u2], [u3, u4, u5], [u6, u7, u8]],
       down = [[d0, d1, d2], [d3, d4, d5], [d6, d7, d8]],
       front = [[f0, f1, f2], [f3, f4, f5], [f6, f7, f8]],
       back_face = [[b0, b1, b2], [b3, b4, b5], [b6, b7, b8]],
       right = [[r0, r1, r2], [r3, r4, r5], [r6, r7, r8]],
       left = [[l0, l1, l2], [l3, l4, l5], [l6, l7, l8]] \<rparr> =
     \<lparr> up = [[u0, u1, f2], [u3, u4, f5], [u6, u7, f8]],
       down = [[d0, d1, b6], [d3, d4, b3], [d6, d7, b0]],
       front = [[f0, f1, d2], [f3, f4, d5], [f6, f7, d8]],
       back_face = [[u8, b1, b2], [u5, b4, b5], [u2, b7, b8]],
       right = [[r6, r3, r0], [r7, r4, r1], [r8, r5, r2]],
       left = [[l0, l1, l2], [l3, l4, l5], [l6, l7, l8]] \<rparr>"
  by (simp add: rotate_right_def rotate_face_def range3_def put_def Let_def)

lemma rotate_right_ccw:
  "rotate_right False
     \<lparr> up = [[u0, u1, u2], [u3, u4, u5], [u6, u7, u8]],
       down = [[d0, d1, d2], [d3, d4, d5], [d6, d7, d8]],
       front = [[f0, f1, f2], [f3, f4, f5], [f6, f7, f8]],
       back_face = [[b0, b1, b2], [b3, b4, b5], [b6, b7, b8]],
       right = [[r0, r1, r2], [r3, r4, r5], [r6, r7, r8]],
       left = [[l0, l1, l2], [l3, l4, l5], [l6, l7, l8]] \<rparr> =
     \<lparr> up = [[u0, u1, b6], [u3, u4, b3], [u6, u7, b0]],
       down = [[d0, d1, f2], [d3, d4, f5], [d6, d7, f8]],
       front = [[f0, f1, u2], [f3, f4, u5], [f6, f7, u8]],
       back_face = [[d8, b1, b2], [d5, b4, b5], [d2, b7, b8]],
       right = [[r2, r5, r8], [r1, r4, r7], [r0, r3, r6]],
       left = [[l0, l1, l2], [l3, l4, l5], [l6, l7, l8]] \<rparr>"
  by (simp add: rotate_right_def rotate_face_def range3_def put_def Let_def)

lemma rotate_front_cw:
  "rotate_front True
     \<lparr> up = [[u0, u1, u2], [u3, u4, u5], [u6, u7, u8]],
       down = [[d0, d1, d2], [d3, d4, d5], [d6, d7, d8]],
       front = [[f0, f1, f2], [f3, f4, f5], [f6, f7, f8]],
       back_face = [[b0, b1, b2], [b3, b4, b5], [b6, b7, b8]],
       right = [[r0, r1, r2], [r3, r4, r5], [r6, r7, r8]],
       left = [[l0, l1, l2], [l3, l4, l5], [l6, l7, l8]] \<rparr> =
     \<lparr> up = [[u0, u1, u2], [u3, u4, u5], [l8, l5, l2]],
       down = [[r6, r3, r0], [d3, d4, d5], [d6, d7, d8]],
       front = [[f6, f3, f0], [f7, f4, f1], [f8, f5, f2]],
       back_face = [[b0, b1, b2], [b3, b4, b5], [b6, b7, b8]],
       right = [[u6, r1, r2], [u7, r4, r5], [u8, r7, r8]],
       left = [[l0, l1, d0], [l3, l4, d1], [l6, l7, d2]] \<rparr>"
  by (simp add: rotate_front_def rotate_face_def range3_def put_def Let_def)

lemma rotate_front_ccw:
  "rotate_front False
     \<lparr> up = [[u0, u1, u2], [u3, u4, u5], [u6, u7, u8]],
       down = [[d0, d1, d2], [d3, d4, d5], [d6, d7, d8]],
       front = [[f0, f1, f2], [f3, f4, f5], [f6, f7, f8]],
       back_face = [[b0, b1, b2], [b3, b4, b5], [b6, b7, b8]],
       right = [[r0, r1, r2], [r3, r4, r5], [r6, r7, r8]],
       left = [[l0, l1, l2], [l3, l4, l5], [l6, l7, l8]] \<rparr> =
     \<lparr> up = [[u0, u1, u2], [u3, u4, u5], [r0, r3, r6]],
       down = [[l2, l5, l8], [d3, d4, d5], [d6, d7, d8]],
       front = [[f2, f5, f8], [f1, f4, f7], [f0, f3, f6]],
       back_face = [[b0, b1, b2], [b3, b4, b5], [b6, b7, b8]],
       right = [[d2, r1, r2], [d1, r4, r5], [d0, r7, r8]],
       left = [[l0, l1, u8], [l3, l4, u7], [l6, l7, u6]] \<rparr>"
  by (simp add: rotate_front_def rotate_face_def range3_def put_def Let_def)

lemma rotate_back_cw:
  "rotate_back True
     \<lparr> up = [[u0, u1, u2], [u3, u4, u5], [u6, u7, u8]],
       down = [[d0, d1, d2], [d3, d4, d5], [d6, d7, d8]],
       front = [[f0, f1, f2], [f3, f4, f5], [f6, f7, f8]],
       back_face = [[b0, b1, b2], [b3, b4, b5], [b6, b7, b8]],
       right = [[r0, r1, r2], [r3, r4, r5], [r6, r7, r8]],
       left = [[l0, l1, l2], [l3, l4, l5], [l6, l7, l8]] \<rparr> =
     \<lparr> up = [[r2, r5, r8], [u3, u4, u5], [u6, u7, u8]],
       down = [[d0, d1, d2], [d3, d4, d5], [l6, l3, l0]],
       front = [[f0, f1, f2], [f3, f4, f5], [f6, f7, f8]],
       back_face = [[b6, b3, b0], [b7, b4, b1], [b8, b5, b2]],
       right = [[r0, r1, d8], [r3, r4, d7], [r6, r7, d6]],
       left = [[u2, l1, l2], [u1, l4, l5], [u0, l7, l8]] \<rparr>"
  by (simp add: rotate_back_def rotate_face_def range3_def put_def Let_def)

lemma rotate_back_ccw:
  "rotate_back False
     \<lparr> up = [[u0, u1, u2], [u3, u4, u5], [u6, u7, u8]],
       down = [[d0, d1, d2], [d3, d4, d5], [d6, d7, d8]],
       front = [[f0, f1, f2], [f3, f4, f5], [f6, f7, f8]],
       back_face = [[b0, b1, b2], [b3, b4, b5], [b6, b7, b8]],
       right = [[r0, r1, r2], [r3, r4, r5], [r6, r7, r8]],
       left = [[l0, l1, l2], [l3, l4, l5], [l6, l7, l8]] \<rparr> =
     \<lparr> up = [[l6, l3, l0], [u3, u4, u5], [u6, u7, u8]],
       down = [[d0, d1, d2], [d3, d4, d5], [r8, r5, r2]],
       front = [[f0, f1, f2], [f3, f4, f5], [f6, f7, f8]],
       back_face = [[b2, b5, b8], [b1, b4, b7], [b0, b3, b6]],
       right = [[r0, r1, u0], [r3, r4, u1], [r6, r7, u2]],
       left = [[d6, l1, l2], [d7, l4, l5], [d8, l7, l8]] \<rparr>"
  by (simp add: rotate_back_def rotate_face_def range3_def put_def Let_def)

section \<open>What every move preserves\<close>


text \<open>\<open>set_face\<close> keeps the six faces 3 by 3, whether it stores the new face or
  raises.\<close>

lemma wf_cube_set_face:
  assumes "wf_cube c"
  shows "wf_cube (fst (set_face face_name colors c))"
  using assms by (simp add: set_face_def wf_cube_def wf_face_def Let_def)
lemma rotate_up_props:
  assumes "wf_cube c"
  shows "wf_cube (rotate_up cw c) \<and> centers (rotate_up cw c) = centers c \<and>
         mset (facelets (rotate_up cw c)) = mset (facelets c)"
  using assms
  by (elim wf_cube_cases)
     (cases cw; simp add: rotate_up_cw rotate_up_ccw wf_cube_def wf_face_def centers_def
        facelets_def faces_values_def)

lemma rotate_down_props:
  assumes "wf_cube c"
  shows "wf_cube (rotate_down cw c) \<and> centers (rotate_down cw c) = centers c \<and>
         mset (facelets (rotate_down cw c)) = mset (facelets c)"
  using assms
  by (elim wf_cube_cases)
     (cases cw; simp add: rotate_down_cw rotate_down_ccw wf_cube_def wf_face_def centers_def
        facelets_def faces_values_def)

lemma rotate_left_props:
  assumes "wf_cube c"
  shows "wf_cube (rotate_left cw c) \<and> centers (rotate_left cw c) = centers c \<and>
         mset (facelets (rotate_left cw c)) = mset (facelets c)"
  using assms
  by (elim wf_cube_cases)
     (cases cw; simp add: rotate_left_cw rotate_left_ccw wf_cube_def wf_face_def centers_def
        facelets_def faces_values_def)

lemma rotate_right_props:
  assumes "wf_cube c"
  shows "wf_cube (rotate_right cw c) \<and> centers (rotate_right cw c) = centers c \<and>
         mset (facelets (rotate_right cw c)) = mset (facelets c)"
  using assms
  by (elim wf_cube_cases)
     (cases cw; simp add: rotate_right_cw rotate_right_ccw wf_cube_def wf_face_def centers_def
        facelets_def faces_values_def)

lemma rotate_front_props:
  assumes "wf_cube c"
  shows "wf_cube (rotate_front cw c) \<and> centers (rotate_front cw c) = centers c \<and>
         mset (facelets (rotate_front cw c)) = mset (facelets c)"
  using assms
  by (elim wf_cube_cases)
     (cases cw; simp add: rotate_front_cw rotate_front_ccw wf_cube_def wf_face_def centers_def
        facelets_def faces_values_def)

lemma rotate_back_props:
  assumes "wf_cube c"
  shows "wf_cube (rotate_back cw c) \<and> centers (rotate_back cw c) = centers c \<and>
         mset (facelets (rotate_back cw c)) = mset (facelets c)"
  using assms
  by (elim wf_cube_cases)
     (cases cw; simp add: rotate_back_cw rotate_back_ccw wf_cube_def wf_face_def centers_def
        facelets_def faces_values_def)

lemma apply_base_move_raises:
  assumes "apply_base_move b cw c = (c', Some e)"
  shows "c' = c \<and> b \<notin> set base_moves \<and> e = ValueError (''Invalid move: '' @ b)"
  using assms by (auto simp: apply_base_move_def base_moves_def split: if_splits)

lemma apply_base_move_returns:
  assumes "b \<in> set base_moves"
  shows "snd (apply_base_move b cw c) = None"
  using assms by (auto simp: apply_base_move_def base_moves_def)

lemma apply_base_move_invalid:
  assumes "b \<notin> set base_moves"
  shows "apply_base_move b cw c = (c, Some (ValueError (''Invalid move: '' @ b)))"
  using assms by (simp add: apply_base_move_def base_moves_def)

lemma apply_base_move_props:
  assumes "wf_cube c" and "apply_base_move b cw c = (c', r)"
  shows "wf_cube c' \<and> centers c' = centers c \<and> mset (facelets c') = mset (facelets c)"
  using assms rotate_up_props [of c cw] rotate_down_props [of c cw] rotate_left_props [of c cw]
    rotate_right_props [of c cw] rotate_front_props [of c cw] rotate_back_props [of c cw]
  by (auto simp: apply_base_move_def split: if_splits)

lemma apply_move_props:
  assumes "wf_cube c" and "apply_move m c = (c', r)"
  shows "wf_cube c' \<and> centers c' = centers c \<and> mset (facelets c') = mset (facelets c)"
proof (cases "endswith m apostrophe")
  case True
  then have "apply_base_move (butlast m) False c = (c', r)"
    using assms(2) by (simp add: apply_move_def)
  then show ?thesis using assms(1) apply_base_move_props by blast
next
  case False
  show ?thesis
  proof (cases "endswith m CHR ''2''")
    case True
    obtain c1 r1 where one: "apply_base_move (butlast m) True c = (c1, r1)"
      by (cases "apply_base_move (butlast m) True c")
    have p1: "wf_cube c1 \<and> centers c1 = centers c \<and> mset (facelets c1) = mset (facelets c)"
      using assms(1) one apply_base_move_props by blast
    show ?thesis
    proof (cases r1)
      case None
      then have "apply_base_move (butlast m) True c1 = (c', r)"
        using assms(2) one True \<open>\<not> endswith m apostrophe\<close> by (simp add: apply_move_def)
      then have "wf_cube c' \<and> centers c' = centers c1 \<and> mset (facelets c') = mset (facelets c1)"
        using p1 apply_base_move_props by blast
      then show ?thesis using p1 by simp
    next
      case (Some e)
      then have "c' = c1"
        using assms(2) one True \<open>\<not> endswith m apostrophe\<close> by (simp add: apply_move_def)
      then show ?thesis using p1 by simp
    qed
  next
    case False
    then have "apply_base_move m True c = (c', r)"
      using assms(2) \<open>\<not> endswith m apostrophe\<close> by (simp add: apply_move_def)
    then show ?thesis using assms(1) apply_base_move_props by blast
  qed
qed

lemma apply_moves_props:
  assumes "wf_cube c" and "apply_moves ms c = (c', r)"
  shows "wf_cube c' \<and> centers c' = centers c \<and> mset (facelets c') = mset (facelets c)"
  using assms
proof (induction ms arbitrary: c)
  case Nil
  then show ?case by simp
next
  case (Cons m ms)
  obtain c1 r1 where one: "apply_move m c = (c1, r1)"
    by (cases "apply_move m c")
  have p1: "wf_cube c1 \<and> centers c1 = centers c \<and> mset (facelets c1) = mset (facelets c)"
    using Cons.prems(1) one apply_move_props by blast
  show ?case
  proof (cases r1)
    case None
    then have "apply_moves ms c1 = (c', r)"
      using Cons.prems(2) one by simp
    then have "wf_cube c' \<and> centers c' = centers c1 \<and> mset (facelets c') = mset (facelets c1)"
      using Cons.IH p1 by blast
    then show ?thesis using p1 by simp
  next
    case (Some e)
    then have "c' = c1"
      using Cons.prems(2) one by simp
    then show ?thesis using p1 by simp
  qed
qed

lemma move_alphabet_cases:
  "m \<in> set move_alphabet \<longleftrightarrow>
     (\<exists>b \<in> set base_moves. m = b \<or> m = b @ [apostrophe] \<or> m = b @ ''2'')"
  by (auto simp: move_alphabet_def base_moves_def)

lemma base_move_last:
  assumes "b \<in> set base_moves"
  shows "\<not> endswith b apostrophe \<and> \<not> endswith b CHR ''2''"
  using assms by (auto simp: base_moves_def endswith_def apostrophe_def)

lemma apply_move_returns:
  assumes "m \<in> set move_alphabet"
  shows "snd (apply_move m c) = None"
proof -
  obtain b where b: "b \<in> set base_moves" and m: "m = b \<or> m = b @ [apostrophe] \<or> m = b @ ''2''"
    using assms move_alphabet_cases by blast
  have r: "\<And>cw x. snd (apply_base_move b cw x) = None"
    using b apply_base_move_returns by blast
  consider "m = b" | "m = b @ [apostrophe]" | "m = b @ ''2''" using m by blast
  then show ?thesis
  proof cases
    case 1
    then show ?thesis using base_move_last [OF b] r by (simp add: apply_move_def)
  next
    case 2
    then show ?thesis using r by (simp add: apply_move_def endswith_def)
  next
    case 3
    then have e: "\<not> endswith m apostrophe" "endswith m CHR ''2''" "butlast m = b"
      by (simp_all add: endswith_def apostrophe_def)
    obtain c1 where "apply_base_move b True c = (c1, None)"
      using r [of True c] by (cases "apply_base_move b True c") simp
    then show ?thesis using e r by (simp add: apply_move_def)
  qed
qed

lemma apply_move_raises:
  assumes "m \<notin> set move_alphabet"
  shows "\<exists>b. apply_move m c = (c, Some (ValueError (''Invalid move: '' @ b)))"
proof (cases "endswith m apostrophe")
  case True
  then have m: "m = butlast m @ [apostrophe]"
    by (simp add: endswith_def) (metis append_butlast_last_id)
  have "butlast m \<notin> set base_moves"
    using assms m move_alphabet_cases by metis
  then show ?thesis
    using True apply_base_move_invalid by (auto simp: apply_move_def)
next
  case False
  show ?thesis
  proof (cases "endswith m CHR ''2''")
    case True
    then have m: "m = butlast m @ ''2''"
      by (simp add: endswith_def) (metis append_butlast_last_id)
    have "butlast m \<notin> set base_moves"
      using assms m move_alphabet_cases by metis
    then show ?thesis
      using True False apply_base_move_invalid by (auto simp: apply_move_def)
  next
    case no2: False
    have "m \<notin> set base_moves"
      using assms move_alphabet_cases by metis
    then show ?thesis
      using False no2 apply_base_move_invalid by (auto simp: apply_move_def)
  qed
qed

section \<open>Move symbols\<close>

lemma length_move_alphabet: "length move_alphabet = 18 \<and> distinct move_alphabet"
  by (simp add: move_alphabet_def apostrophe_def)

text \<open>
  Claim C8. A move symbol outside the eighteen of the alphabet makes \<open>apply_move\<close> raise
  ValueError (the error the specification calls InvalidMove) and leaves the cube as it
  was; a symbol of the alphabet raises nothing.
\<close>

theorem apply_move_invalid_symbol:
  "(m \<notin> set move_alphabet \<longrightarrow>
      (\<exists>b. apply_move m c = (c, Some (ValueError (''Invalid move: '' @ b))))) \<and>
   (m \<in> set move_alphabet \<longrightarrow> snd (apply_move m c) = None)"
  using apply_move_raises [of m c] apply_move_returns [of m c] by blast

theorem apply_move_invalid_symbol_witness:
  "[CHR ''U'', CHR 0x27, CHR 0x27] \<notin> set move_alphabet \<and>
   (\<exists>b. apply_move [CHR ''U'', CHR 0x27, CHR 0x27] new_cube =
          (new_cube, Some (ValueError (''Invalid move: '' @ b)))) \<and>
   ''U2'' \<in> set move_alphabet \<and> snd (apply_move ''U2'' new_cube) = None"
proof -
  have h1: "[CHR ''U'', CHR 0x27, CHR 0x27] \<notin> set move_alphabet"
    by (simp add: move_alphabet_def apostrophe_def)
  have h2: "''U2'' \<in> set move_alphabet"
    by (simp add: move_alphabet_def apostrophe_def)
  show ?thesis
    using h1 h2 apply_move_invalid_symbol [of "[CHR ''U'', CHR 0x27, CHR 0x27]" new_cube]
      apply_move_invalid_symbol [of "''U2''" new_cube]
    by blast
qed

section \<open>Centres\<close>

lemma wf_new_cube: "wf_cube new_cube"
  by (simp add: wf_cube_def wf_face_def new_cube_def uniform_face_def range3_def)

lemma centers_new_cube: "centers new_cube = [''W'', ''Y'', ''R'', ''O'', ''B'', ''G'']"
  by (simp add: centers_def faces_values_def new_cube_def uniform_face_def range3_def)

text \<open>
  Claim C9. On a cube of six 3 by 3 faces, every move of the alphabet returns without an
  exception and leaves the facelet at position [1][1] of each of the six faces as it was.
\<close>

theorem face_turn_keeps_centers:
  assumes "wf_cube c" and "m \<in> set move_alphabet"
  shows "snd (apply_move m c) = None \<and>
         map (\<lambda>face. face ! 1 ! 1) (faces_values (fst (apply_move m c))) =
         map (\<lambda>face. face ! 1 ! 1) (faces_values c)"
proof -
  have "centers (fst (apply_move m c)) = centers c"
    using assms(1) apply_move_props [of c m "fst (apply_move m c)" "snd (apply_move m c)"]
    by simp
  then show ?thesis
    using assms(2) apply_move_returns by (simp add: centers_def)
qed

theorem face_turn_keeps_centers_witness:
  "wf_cube new_cube \<and> ''F2'' \<in> set move_alphabet \<and>
   map (\<lambda>face. face ! 1 ! 1) (faces_values (fst (apply_move ''F2'' new_cube))) =
   [''W'', ''Y'', ''R'', ''O'', ''B'', ''G'']"
proof -
  have h: "''F2'' \<in> set move_alphabet"
    by (simp add: move_alphabet_def apostrophe_def)
  show ?thesis
    using h wf_new_cube centers_new_cube face_turn_keeps_centers [OF wf_new_cube h]
    by (simp add: centers_def)
qed

section \<open>Double moves\<close>

text \<open>
  Claim C3. For a base move \<open>X\<close>, \<open>apply_move(X + "2")\<close> leaves the cube in the state
  that \<open>apply_move(X); apply_move(X)\<close> leaves it in: the double move is two clockwise
  quarter turns, one after the other.
\<close>

theorem double_move_is_two_quarter_turns:
  assumes "x \<in> set base_moves"
  shows "apply_move (x @ ''2'') c = apply_moves [x, x] c"
proof -
  have e: "\<not> endswith (x @ ''2'') apostrophe" "endswith (x @ ''2'') CHR ''2''"
    by (simp_all add: endswith_def apostrophe_def)
  have s: "\<And>y. apply_move x y = apply_base_move x True y"
    using base_move_last [OF assms] by (simp add: apply_move_def)
  show ?thesis
    using e s by (simp add: apply_move_def split: prod.splits option.splits)
qed

theorem double_move_is_two_quarter_turns_witness:
  "''R'' \<in> set base_moves \<and> apply_move ''R2'' new_cube = apply_moves [''R'', ''R''] new_cube"
proof -
  have h: "''R'' \<in> set base_moves" by (simp add: base_moves_def)
  show ?thesis using h double_move_is_two_quarter_turns [OF h, of new_cube] by simp
qed

section \<open>The new cube\<close>

lemma facelets_new_cube:
  "facelets new_cube =
     replicate 9 ''W'' @ replicate 9 ''Y'' @ replicate 9 ''R'' @ replicate 9 ''O'' @
     replicate 9 ''B'' @ replicate 9 ''G''"
  by (simp add: facelets_def faces_values_def new_cube_def uniform_face_def range3_def
      eval_nat_numeral)

lemma is_solved_new_cube: "is_solved new_cube"
  by (simp add: is_solved_def face_solved_def faces_values_def new_cube_def uniform_face_def
      range3_def eval_nat_numeral)

section \<open>Validity as a count\<close>

lemma fold_count_color:
  "dict_get (fold count_color xs m) k 0 = dict_get m k 0 + count_list xs k"
  by (induction xs arbitrary: m) (auto simp: count_color_def dict_get_def)

lemma fold_rows_count_color:
  "dict_get (fold (\<lambda>row m. fold count_color row m) rows m) k 0 =
   dict_get m k 0 + count_list (concat rows) k"
  by (induction rows arbitrary: m) (auto simp: fold_count_color)

lemma fold_faces_count_color:
  "dict_get (fold (\<lambda>face m. fold (\<lambda>row m. fold count_color row m) face m) fs m) k 0 =
   dict_get m k 0 + count_list (concat (concat fs)) k"
  by (induction fs arbitrary: m) (auto simp: fold_rows_count_color)

lemma color_count_of_facelets:
  "dict_get (color_count_of c) k 0 = count_list (facelets c) k"
  unfolding color_count_of_def facelets_def
  by (simp add: fold_faces_count_color) (simp add: dict_get_def)

lemma is_valid_iff:
  "is_valid c \<longleftrightarrow>
     list_all (\<lambda>k. count_list (facelets c) k = 9) [''W'', ''Y'', ''R'', ''O'', ''B'', ''G''] \<and>
     card (set (centers c)) = 6"
  by (auto simp: is_valid_def Let_def color_count_of_facelets validate_pieces_def)

lemma is_valid_cong:
  assumes "mset (facelets c') = mset (facelets c)" and "centers c' = centers c"
  shows "is_valid c' = is_valid c"
proof -
  have "\<And>k. count_list (facelets c') k = count_list (facelets c) k"
    using assms(1) by (metis count_mset)
  then show ?thesis
    using assms(2) by (simp add: is_valid_iff)
qed

lemma count_list_replicate:
  "count_list (replicate n x) k = (if x = k then n else 0)"
  by (induction n) auto

lemma counts_new_cube:
  "list_all (\<lambda>k. count_list (facelets new_cube) k = 9) [''W'', ''Y'', ''R'', ''O'', ''B'', ''G'']"
  by (simp add: facelets_new_cube count_list_replicate)

lemma is_valid_new_cube: "is_valid new_cube"
  using counts_new_cube by (simp add: is_valid_iff centers_new_cube)

text \<open>
  Claim C7. The cube that the constructor builds is solved and valid: each of the six
  colours is on nine facelets and the six centres are six different colours.
\<close>

theorem new_cube_solved_and_valid:
  "is_solved new_cube \<and> is_valid new_cube \<and>
   list_all (\<lambda>k. count_list (facelets new_cube) k = 9) [''W'', ''Y'', ''R'', ''O'', ''B'', ''G''] \<and>
   length (centers new_cube) = 6 \<and> distinct (centers new_cube)"
  using is_solved_new_cube is_valid_new_cube counts_new_cube
  by (simp add: centers_new_cube)

section \<open>Validity is kept by every move\<close>

lemma apply_moves_returns:
  assumes "set ms \<subseteq> set move_alphabet"
  shows "snd (apply_moves ms c) = None"
  using assms
proof (induction ms arbitrary: c)
  case Nil
  then show ?case by simp
next
  case (Cons m ms)
  then have "snd (apply_move m c) = None"
    using apply_move_returns by simp
  then obtain c1 where "apply_move m c = (c1, None)"
    by (cases "apply_move m c") simp
  then show ?case using Cons by simp
qed

text \<open>
  Claim C10. On a cube of six 3 by 3 faces, a move of the alphabet leaves \<open>is_valid\<close> as
  it was: the facelets after the move are a permutation of the facelets before it, and
  the six centres are where they were. A sequence of moves of the alphabet applied to the
  new cube raises nothing and ends in a valid cube.
\<close>

theorem apply_move_preserves_is_valid:
  assumes "wf_cube c" and "m \<in> set move_alphabet"
  shows "is_valid (fst (apply_move m c)) = is_valid c \<and>
         mset (facelets (fst (apply_move m c))) = mset (facelets c) \<and>
         centers (fst (apply_move m c)) = centers c \<and>
         (set ms \<subseteq> set move_alphabet \<longrightarrow>
            snd (apply_moves ms new_cube) = None \<and> is_valid (fst (apply_moves ms new_cube)))"
proof -
  have one: "mset (facelets (fst (apply_move m c))) = mset (facelets c) \<and>
             centers (fst (apply_move m c)) = centers c"
    using assms(1) apply_move_props [of c m "fst (apply_move m c)" "snd (apply_move m c)"]
    by simp
  have many: "mset (facelets (fst (apply_moves ms new_cube))) = mset (facelets new_cube) \<and>
              centers (fst (apply_moves ms new_cube)) = centers new_cube"
    using wf_new_cube
      apply_moves_props [of new_cube ms "fst (apply_moves ms new_cube)" "snd (apply_moves ms new_cube)"]
    by simp
  have "is_valid (fst (apply_moves ms new_cube))"
    using many is_valid_cong is_valid_new_cube by blast
  then show ?thesis
    using one is_valid_cong apply_moves_returns by blast
qed

theorem apply_move_preserves_is_valid_witness:
  "wf_cube new_cube \<and> ''B'' \<in> set move_alphabet \<and>
   set [''U'', ''B''] \<subseteq> set move_alphabet \<and>
   is_valid (fst (apply_move ''B'' new_cube)) \<and>
   snd (apply_moves [''U'', ''B''] new_cube) = None \<and>
   is_valid (fst (apply_moves [''U'', ''B''] new_cube))"
proof -
  have h1: "''B'' \<in> set move_alphabet"
    by (simp add: move_alphabet_def apostrophe_def)
  have h2: "set [''U'', ''B''] \<subseteq> set move_alphabet"
    by (simp add: move_alphabet_def apostrophe_def)
  show ?thesis
    using h1 h2 wf_new_cube is_valid_new_cube
      apply_move_preserves_is_valid [OF wf_new_cube h1, of "[''U'', ''B'']"]
    by blast
qed

section \<open>The solver on a solved cube\<close>

text \<open>
  Claim C4. On a solved cube \<open>solve\<close> returns the empty solution and makes no call to
  the collaborator, whatever the collaborator would have returned or raised.
\<close>

theorem solve_solved_cube:
  assumes "is_solved c"
  shows "solve kociemba_solve c = \<lparr> returned = Inr [], calls = [] \<rparr>"
  using assms by (simp add: solve_def)

theorem solve_solved_cube_witness:
  "is_solved new_cube \<and>
   solve (\<lambda>s. Inl (OtherException ''unavailable'')) new_cube = \<lparr> returned = Inr [], calls = [] \<rparr> \<and>
   solve (\<lambda>s. Inr ''R U'') new_cube = \<lparr> returned = Inr [], calls = [] \<rparr>"
  using is_solved_new_cube
    solve_solved_cube [OF is_solved_new_cube, of "\<lambda>s. Inl (OtherException ''unavailable'')"]
    solve_solved_cube [OF is_solved_new_cube, of "\<lambda>s. Inr ''R U''"]
  by simp

section \<open>The encoding of a valid cube\<close>

lemma length_facelets:
  assumes "wf_cube c"
  shows "length (facelets c) = 54"
  using assms by (elim wf_cube_cases) (simp add: facelets_def faces_values_def)

lemma centers_in_facelets:
  assumes "wf_cube c"
  shows "set (centers c) \<subseteq> set (facelets c)"
  using assms by (elim wf_cube_cases) (simp add: centers_def facelets_def faces_values_def)

lemma facelets_face_order:
  "set (concat (concat (face_order c))) = set (facelets c)"
  by (auto simp: face_order_def facelets_def faces_values_def)

lemma length_face_order:
  "length (concat (concat (face_order c))) = length (facelets c)"
  by (simp add: face_order_def facelets_def faces_values_def)

text \<open>If each of the colours \<open>ks\<close> is counted \<open>n\<close> times in a list of \<open>n * length ks\<close>
  elements, the list has no other element.\<close>

lemma counted_colors_cover:
  assumes "distinct ks" and "list_all (\<lambda>k. count_list xs k = n) ks"
    and "length xs = n * length ks"
  shows "set xs \<subseteq> set ks"
proof -
  let ?rest = "set xs - set ks"
  have total: "sum (count_list xs) (set ks \<union> ?rest) = length xs"
    by (rule sum_count_set) auto
  have ks: "sum (count_list xs) (set ks) = n * length ks"
  proof -
    have "sum (count_list xs) (set ks) = sum (\<lambda>_. n) (set ks)"
      using assms(2) by (intro sum.cong) (auto simp: list_all_iff)
    then show ?thesis using assms(1) by (simp add: distinct_card)
  qed
  have "sum (count_list xs) (set ks \<union> ?rest) =
        sum (count_list xs) (set ks) + sum (count_list xs) ?rest"
    by (rule sum.union_disjoint) auto
  then have "sum (count_list xs) ?rest = 0"
    using total ks assms(3) by simp
  then have zero: "\<And>x. x \<in> ?rest \<Longrightarrow> count_list xs x = 0"
    by simp
  show ?thesis
  proof
    fix x
    assume x: "x \<in> set xs"
    show "x \<in> set ks"
    proof (rule ccontr)
      assume "x \<notin> set ks"
      then have "count_list xs x = 0" using x zero by simp
      then show False using x by (simp add: count_list_0_iff)
    qed
  qed
qed

lemma valid_facelets_are_centers:
  assumes "wf_cube c" and "is_valid c"
  shows "set (facelets c) \<subseteq> set (centers c)"
proof -
  let ?six = "[''W'', ''Y'', ''R'', ''O'', ''B'', ''G'']"
  have counts: "list_all (\<lambda>k. count_list (facelets c) k = 9) ?six"
    and card: "card (set (centers c)) = 6"
    using assms(2) by (simp_all add: is_valid_iff)
  have "distinct ?six" by simp
  moreover have "length (facelets c) = 9 * length ?six"
    using length_facelets [OF assms(1)] by simp
  ultimately have sub: "set (facelets c) \<subseteq> set ?six"
    using counts counted_colors_cover by blast
  have "set (centers c) \<subseteq> set ?six"
    using centers_in_facelets [OF assms(1)] sub by blast
  moreover have "card (set ?six) = 6" by simp
  ultimately have "set (centers c) = set ?six"
    using card by (intro card_subset_eq) simp_all
  then show ?thesis using sub by simp
qed

lemma dom_color_map_of: "dom (color_map_of c) = set (centers c)"
  by (auto simp: color_map_of_def face_order_def centers_def faces_values_def)

lemma length_color_map_of:
  assumes "color_map_of c cell = Some letter"
  shows "length letter = 1"
  using assms by (auto simp: color_map_of_def face_order_def split: if_splits)

lemma fold_encode_cell:
  assumes "set row \<subseteq> dom m"
  shows "fold (encode_cell m) row (Inr s) = Inr (s @ concat (map (\<lambda>cell. the (m cell)) row))"
  using assms
proof (induction row arbitrary: s)
  case Nil
  then show ?case by simp
next
  case (Cons cell row)
  then obtain letter where "m cell = Some letter" by auto
  then show ?case using Cons by (simp add: encode_cell_def)
qed

lemma fold_encode_rows:
  assumes "set (concat rows) \<subseteq> dom m"
  shows "fold (\<lambda>row acc. fold (encode_cell m) row acc) rows (Inr s) =
         Inr (s @ concat (map (\<lambda>cell. the (m cell)) (concat rows)))"
  using assms
  by (induction rows arbitrary: s) (simp_all add: fold_encode_cell)

lemma fold_encode_faces:
  assumes "set (concat (concat fs)) \<subseteq> dom m"
  shows "fold (\<lambda>face acc. fold (\<lambda>row acc. fold (encode_cell m) row acc) face acc) fs (Inr s) =
         Inr (s @ concat (map (\<lambda>cell. the (m cell)) (concat (concat fs))))"
  using assms
  by (induction fs arbitrary: s) (simp_all add: fold_encode_rows)

lemma length_concat_letters:
  assumes "\<And>x. x \<in> set xs \<Longrightarrow> length (f x) = 1"
  shows "length (concat (map f xs)) = length xs"
  using assms by (induction xs) simp_all

lemma encoding_succeeds:
  assumes "wf_cube c" and "set (facelets c) \<subseteq> set (centers c)"
  shows "\<exists>s. to_kociemba_string c = Inr s \<and> length s = 54"
proof -
  let ?m = "color_map_of c"
  let ?cells = "concat (concat (face_order c))"
  have d: "set ?cells \<subseteq> dom ?m"
    unfolding facelets_face_order dom_color_map_of by (rule assms(2))
  have enc: "to_kociemba_string c = Inr (concat (map (\<lambda>cell. the (?m cell)) ?cells))"
    using fold_encode_faces [OF d, of "[]"] by (simp add: to_kociemba_string_def)
  have "\<And>x. x \<in> set ?cells \<Longrightarrow> length (the (?m x)) = 1"
  proof -
    fix x
    assume "x \<in> set ?cells"
    then obtain letter where "?m x = Some letter" using d by auto
    then show "length (the (?m x)) = 1" using length_color_map_of by simp
  qed
  then have "length (concat (map (\<lambda>cell. the (?m cell)) ?cells)) = length ?cells"
    by (rule length_concat_letters)
  then show ?thesis
    using enc length_face_order [of c] length_facelets [OF assms(1)] by simp
qed


lemma new_cube_grids:
  "new_cube =
     \<lparr> up = [[''W'', ''W'', ''W''], [''W'', ''W'', ''W''], [''W'', ''W'', ''W'']],
       down = [[''Y'', ''Y'', ''Y''], [''Y'', ''Y'', ''Y''], [''Y'', ''Y'', ''Y'']],
       front = [[''R'', ''R'', ''R''], [''R'', ''R'', ''R''], [''R'', ''R'', ''R'']],
       back_face = [[''O'', ''O'', ''O''], [''O'', ''O'', ''O''], [''O'', ''O'', ''O'']],
       right = [[''B'', ''B'', ''B''], [''B'', ''B'', ''B''], [''B'', ''B'', ''B'']],
       left = [[''G'', ''G'', ''G''], [''G'', ''G'', ''G''], [''G'', ''G'', ''G'']] \<rparr>"
  by (simp add: new_cube_def uniform_face_def range3_def eval_nat_numeral)

lemma cube_after_U_grids:
  "cube_after_U =
     \<lparr> up = [[''W'', ''W'', ''W''], [''W'', ''W'', ''W''], [''W'', ''W'', ''W'']],
       down = [[''Y'', ''Y'', ''Y''], [''Y'', ''Y'', ''Y''], [''Y'', ''Y'', ''Y'']],
       front = [[''B'', ''B'', ''B''], [''R'', ''R'', ''R''], [''R'', ''R'', ''R'']],
       back_face = [[''G'', ''G'', ''G''], [''O'', ''O'', ''O''], [''O'', ''O'', ''O'']],
       right = [[''O'', ''O'', ''O''], [''B'', ''B'', ''B''], [''B'', ''B'', ''B'']],
       left = [[''R'', ''R'', ''R''], [''G'', ''G'', ''G''], [''G'', ''G'', ''G'']] \<rparr>"
  by (simp add: cube_after_U_def new_cube_grids apply_move_def apply_base_move_def
      endswith_def apostrophe_def rotate_up_cw)

lemma wf_cube_after_U: "wf_cube cube_after_U"
  by (simp add: cube_after_U_grids wf_cube_def wf_face_def)

lemma is_valid_cube_after_U: "is_valid cube_after_U"
proof -
  have "mset (facelets cube_after_U) = mset (facelets new_cube) \<and>
        centers cube_after_U = centers new_cube"
    using wf_new_cube
      apply_move_props [of new_cube "''U''" "fst (apply_move ''U'' new_cube)"
        "snd (apply_move ''U'' new_cube)"]
    by (simp add: cube_after_U_def)
  then show ?thesis
    using is_valid_cong is_valid_new_cube by blast
qed

lemma not_solved_cube_after_U: "\<not> is_solved cube_after_U"
  by (simp add: cube_after_U_grids is_solved_def face_solved_def faces_values_def)

lemma encoding_cube_after_U:
  "to_kociemba_string cube_after_U =
     Inr ''UUUUUUUUUBBBRRRRRRRRRFFFFFFDDDDDDDDDFFFLLLLLLLLLBBBBBB''"
  by (simp add: cube_after_U_grids to_kociemba_string_def color_map_of_def face_order_def
      encode_cell_def)

lemma wf_cube_stray: "wf_cube cube_stray"
  by (simp add: cube_stray_def set_face_def new_cube_grids wf_cube_def wf_face_def)

lemma encoding_cube_stray: "to_kociemba_string cube_stray = Inl (KeyError ''X'')"
  by (simp add: cube_stray_def set_face_def new_cube_grids to_kociemba_string_def
      color_map_of_def face_order_def encode_cell_def)

text \<open>
  Claim C6. On a cube of six 3 by 3 faces that \<open>is_valid\<close> accepts, each of the 54
  facelets has the colour of one of the six centres, and the encoding returns a string
  of 54 letters; so an encoding that raises KeyError comes from a cube that \<open>is_valid\<close>
  rejects.
\<close>

theorem valid_cube_encodes:
  assumes "wf_cube c"
  shows "(is_valid c \<longrightarrow>
            length (facelets c) = 54 \<and> set (facelets c) \<subseteq> set (centers c) \<and>
            (\<exists>s. to_kociemba_string c = Inr s \<and> length s = 54)) \<and>
         (\<forall>e. to_kociemba_string c = Inl e \<longrightarrow> \<not> is_valid c)"
proof -
  have "is_valid c \<Longrightarrow> \<exists>s. to_kociemba_string c = Inr s \<and> length s = 54"
    using assms valid_facelets_are_centers encoding_succeeds by blast
  then show ?thesis
    using assms valid_facelets_are_centers length_facelets by fastforce
qed

theorem valid_cube_encodes_witness:
  "wf_cube cube_after_U \<and> is_valid cube_after_U \<and>
   set (facelets cube_after_U) \<subseteq> set (centers cube_after_U) \<and>
   to_kociemba_string cube_after_U =
     Inr ''UUUUUUUUUBBBRRRRRRRRRFFFFFFDDDDDDDDDFFFLLLLLLLLLBBBBBB'' \<and>
   wf_cube cube_stray \<and> to_kociemba_string cube_stray = Inl (KeyError ''X'') \<and>
   \<not> is_valid cube_stray"
  using wf_cube_after_U is_valid_cube_after_U encoding_cube_after_U wf_cube_stray
    encoding_cube_stray valid_cube_encodes [OF wf_cube_after_U]
    valid_cube_encodes [OF wf_cube_stray]
  by blast

section \<open>The solver when the collaborator fails\<close>

lemma generate_simple_solution_tokens:
  "generate_simple_solution =
     [''F2'', ''R2'', ''U2'', ''B2'', ''L2'', ''R'', ''U'', [CHR ''R'', CHR 0x27],
      [CHR ''U'', CHR 0x27], ''F'', ''R'', ''U'', [CHR ''R'', CHR 0x27],
      [CHR ''U'', CHR 0x27], [CHR ''F'', CHR 0x27]] \<and>
   length generate_simple_solution = 15"
  by (simp add: generate_simple_solution_def)

text \<open>
  Claim C5. On a valid cube of six 3 by 3 faces that is not solved, the encoding
  succeeds and \<open>solve\<close> calls the collaborator once, with the encoded cube; when that
  call raises, \<open>solve\<close> returns the fifteen fixed tokens and no exception.
\<close>

theorem solve_falls_back:
  assumes "wf_cube c" and "is_valid c" and "\<not> is_solved c"
  shows "\<exists>cube_str. to_kociemba_string c = Inr cube_str \<and>
           (\<forall>e. kociemba_solve cube_str = Inl e \<longrightarrow>
              solve kociemba_solve c =
                \<lparr> returned =
                    Inr [''F2'', ''R2'', ''U2'', ''B2'', ''L2'', ''R'', ''U'',
                         [CHR ''R'', CHR 0x27], [CHR ''U'', CHR 0x27], ''F'', ''R'', ''U'',
                         [CHR ''R'', CHR 0x27], [CHR ''U'', CHR 0x27], [CHR ''F'', CHR 0x27]],
                  calls = [cube_str] \<rparr>)"
proof -
  obtain cube_str where enc: "to_kociemba_string c = Inr cube_str"
    using assms(1,2) valid_facelets_are_centers encoding_succeeds by blast
  have "\<And>e. kociemba_solve cube_str = Inl e \<Longrightarrow>
          solve kociemba_solve c =
            \<lparr> returned = Inr generate_simple_solution, calls = [cube_str] \<rparr>"
    using assms(2,3) enc by (simp add: solve_def)
  then show ?thesis
    using enc generate_simple_solution_tokens by auto
qed

theorem solve_falls_back_witness:
  "wf_cube cube_after_U \<and> is_valid cube_after_U \<and> \<not> is_solved cube_after_U \<and>
   solve (\<lambda>s. Inl (ValueError ''no solution'')) cube_after_U =
     \<lparr> returned =
         Inr [''F2'', ''R2'', ''U2'', ''B2'', ''L2'', ''R'', ''U'',
              [CHR ''R'', CHR 0x27], [CHR ''U'', CHR 0x27], ''F'', ''R'', ''U'',
              [CHR ''R'', CHR 0x27], [CHR ''U'', CHR 0x27], [CHR ''F'', CHR 0x27]],
       calls = [''UUUUUUUUUBBBRRRRRRRRRFFFFFFDDDDDDDDDFFFLLLLLLLLLBBBBBB''] \<rparr>"
proof -
  obtain cube_str where enc: "to_kociemba_string cube_after_U = Inr cube_str"
    and fallback: "\<forall>e. (\<lambda>s. Inl (ValueError ''no solution'')) cube_str = Inl e \<longrightarrow>
      solve (\<lambda>s. Inl (ValueError ''no solution'')) cube_after_U =
        \<lparr> returned =
            Inr [''F2'', ''R2'', ''U2'', ''B2'', ''L2'', ''R'', ''U'',
                 [CHR ''R'', CHR 0x27], [CHR ''U'', CHR 0x27], ''F'', ''R'', ''U'',
                 [CHR ''R'', CHR 0x27], [CHR ''U'', CHR 0x27], [CHR ''F'', CHR 0x27]],
          calls = [cube_str] \<rparr>"
    using solve_falls_back [OF wf_cube_after_U is_valid_cube_after_U not_solved_cube_after_U,
        of "\<lambda>s. Inl (ValueError ''no solution'')"]
    by blast
  have s: "cube_str = ''UUUUUUUUUBBBRRRRRRRRRFFFFFFDDDDDDDDDFFFLLLLLLLLLBBBBBB''"
    using enc encoding_cube_after_U by simp
  have "solve (\<lambda>s. Inl (ValueError ''no solution'')) cube_after_U =
        \<lparr> returned =
            Inr [''F2'', ''R2'', ''U2'', ''B2'', ''L2'', ''R'', ''U'',
                 [CHR ''R'', CHR 0x27], [CHR ''U'', CHR 0x27], ''F'', ''R'', ''U'',
                 [CHR ''R'', CHR 0x27], [CHR ''U'', CHR 0x27], [CHR ''F'', CHR 0x27]],
          calls = [cube_str] \<rparr>"
    using fallback by simp
  then show ?thesis
    using s wf_cube_after_U is_valid_cube_after_U not_solved_cube_after_U by simp
qed

section \<open>Quarter turns and their inverses\<close>

text \<open>On a cube of six 3 by 3 faces, a quarter turn of the upper, lower, left, right or
  front face followed by the opposite quarter turn (in either order) gives the cube back,
  and so do four equal quarter turns of one of these faces.\<close>

lemma quarter_turn_inverse_other_faces:
  assumes "wf_cube c" and "x \<in> set [''U'', ''D'', ''L'', ''R'', ''F'']"
  shows "apply_moves [x, x @ [apostrophe]] c = (c, None) \<and>
         apply_moves [x @ [apostrophe], x] c = (c, None)"
  using assms
  by (elim wf_cube_cases)
     (auto simp: apply_move_def apply_base_move_def endswith_def apostrophe_def
        rotate_up_cw rotate_up_ccw rotate_down_cw rotate_down_ccw rotate_left_cw
        rotate_left_ccw rotate_right_cw rotate_right_ccw rotate_front_cw rotate_front_ccw)

lemma four_quarter_turns_other_faces:
  assumes "wf_cube c" and "x \<in> set [''U'', ''D'', ''L'', ''R'', ''F'']"
  shows "apply_moves [x, x, x, x] c = (c, None)"
  using assms
  by (elim wf_cube_cases)
     (auto simp: apply_move_def apply_base_move_def endswith_def apostrophe_def
        rotate_up_cw rotate_down_cw rotate_left_cw rotate_right_cw rotate_front_cw)

text \<open>The counter-clockwise quarter turn of the back face, four times, gives the cube
  back as well.\<close>

lemma four_back_inverse_turns:
  assumes "wf_cube c"
  shows "apply_moves [[CHR ''B'', CHR 0x27], [CHR ''B'', CHR 0x27], [CHR ''B'', CHR 0x27],
           [CHR ''B'', CHR 0x27]] c = (c, None)"
  using assms
  by (elim wf_cube_cases)
     (simp add: apply_move_def apply_base_move_def endswith_def apostrophe_def rotate_back_ccw)

text \<open>
  Claim C1 (a quarter turn followed by its inverse gives the cube back; a sequence of
  moves followed by its reversed and inverted sequence gives the cube back). The
  clockwise turn of the back face breaks it: on the new cube after \<open>U\<close>, the moves
  \<open>B\<close>, \<open>B'\<close> return without an exception and leave the left column of the left face
  reversed, and the sequence \<open>U\<close>, \<open>B\<close> followed by \<open>B'\<close>, \<open>U'\<close> does not give the new
  cube back.
\<close>

theorem back_turn_then_inverse_changes_cube:
  "apply_moves [''B'', [CHR ''B'', CHR 0x27]] cube_after_U =
     (cube_after_U \<lparr> left := [[''G'', ''R'', ''R''], [''G'', ''G'', ''G''], [''R'', ''G'', ''G'']] \<rparr>,
      None) \<and>
   left cube_after_U = [[''R'', ''R'', ''R''], [''G'', ''G'', ''G''], [''G'', ''G'', ''G'']] \<and>
   fst (apply_moves [''B'', [CHR ''B'', CHR 0x27]] cube_after_U) \<noteq> cube_after_U \<and>
   apply_moves [''U'', ''B'', [CHR ''B'', CHR 0x27], [CHR ''U'', CHR 0x27]] new_cube =
     (new_cube \<lparr> front := [[''G'', ''R'', ''R''], [''R'', ''R'', ''R''], [''R'', ''R'', ''R'']],
                left := [[''G'', ''G'', ''G''], [''G'', ''G'', ''G''], [''R'', ''G'', ''G'']] \<rparr>,
      None) \<and>
   fst (apply_moves [''U'', ''B'', [CHR ''B'', CHR 0x27], [CHR ''U'', CHR 0x27]] new_cube)
     \<noteq> new_cube"
  by (simp add: cube_after_U_grids new_cube_grids apply_move_def apply_base_move_def
      endswith_def apostrophe_def rotate_up_cw rotate_up_ccw rotate_back_cw rotate_back_ccw)

text \<open>
  Claim C2 (four equal quarter turns give the cube back). Four clockwise turns of the
  back face do not: on the new cube after \<open>U\<close> they return without an exception and
  leave the left column of the left face and the right column of the right face
  reversed.
\<close>

theorem four_back_turns_change_cube:
  "apply_moves [''B'', ''B'', ''B'', ''B''] cube_after_U =
     (cube_after_U \<lparr> right := [[''O'', ''O'', ''B''], [''B'', ''B'', ''B''], [''B'', ''B'', ''O'']],
                     left := [[''G'', ''R'', ''R''], [''G'', ''G'', ''G''], [''R'', ''G'', ''G'']] \<rparr>,
      None) \<and>
   right cube_after_U = [[''O'', ''O'', ''O''], [''B'', ''B'', ''B''], [''B'', ''B'', ''B'']] \<and>
   left cube_after_U = [[''R'', ''R'', ''R''], [''G'', ''G'', ''G''], [''G'', ''G'', ''G'']] \<and>
   fst (apply_moves [''B'', ''B'', ''B'', ''B''] cube_after_U) \<noteq> cube_after_U"
  by (simp add: cube_after_U_grids apply_move_def apply_base_move_def
      endswith_def apostrophe_def rotate_back_cw)

end
